theory Spec2Isabelle
  imports Main
begin

section \<open>The flexvolume driver command: control channel client and output capture\<close>

text \<open>
  The development covers the three functions of package \<open>cmd\<close> that make up the
  CLI-to-agent control channel: \<open>getRPCClient\<close>, \<open>log\<close> and \<open>redirectStdout\<close>.
  They are effectful Go code over process-global state (\<open>os.Stdout\<close>, \<open>os.Stderr\<close>),
  the file table of the process and a unix-socket RPC connection.  The model threads an
  explicit \<open>world\<close> through every operation.  Each library operation the functions call
  (\<open>os.Pipe\<close>, \<open>File.Write\<close>, \<open>File.Close\<close>, \<open>io.Copy\<close>, \<open>rpc.Client.Call\<close>,
  \<open>os.Executable\<close>, \<open>net.Dial\<close>, \<open>path.Dir\<close>, \<open>path.Join\<close>) is a function on that
  world, and each appends an event to a trace, so that the order of effects can be stated.
\<close>

subsection \<open>Go values\<close>

text \<open>A Go \<open>error\<close> value, identified by the text \<open>err.Error()\<close> returns.  A Go
  result of type \<open>error\<close> is an \<open>error option\<close>, \<open>None\<close> being \<open>nil\<close>.\<close>

datatype error = Error string

fun Error_msg :: "error \<Rightarrow> string" where
  "Error_msg (Error m) = m"

definition ErrInvalid :: error where
  "ErrInvalid = Error ''invalid argument''"

definition ErrClosed :: error where
  "ErrClosed = Error ''file already closed''"

definition ErrBadFd :: error where
  "ErrBadFd = Error ''bad file descriptor''"

definition ErrPipe :: error where
  "ErrPipe = Error ''broken pipe''"

definition ErrShutdown :: error where
  "ErrShutdown = Error ''connection is shut down''"

text \<open>An open file of the process: an ordinary output stream (the terminal, a log file),
  or one end of a pipe.  A value of type \<open>*os.File\<close> is a \<open>handle\<close>; \<open>None\<close> is the nil
  pointer.\<close>

datatype os_File = Stream nat | PipeRead nat | PipeWrite nat

type_synonym handle = "os_File option"

text \<open>\<open>flexvolume.LogMessage\<close>, the argument of the remote logging call.  The type is
  declared in package \<open>flexvolume\<close>; its two fields are the ones \<open>log\<close> fills in.\<close>

record LogMessage =
  Message :: string
  IsError :: bool

text \<open>A \<open>*rpc.Client\<close> that \<open>rpc.NewClient\<close> returned (so not nil), identified by its
  connection.\<close>

type_synonym client = nat

datatype event =
    EvPipe handle handle "error option"
  | EvSetStdout handle
  | EvSetStderr handle
  | EvWrite handle string
  | EvClose handle "error option"
  | EvCopy handle string
  | EvCall client string LogMessage "error option"
  | EvExecutable
  | EvDial string string
  | EvNewClient client

text \<open>
  The state of the process and of its environment.
  \<^item> \<open>Stdout\<close>, \<open>Stderr\<close>: the package variables \<open>os.Stdout\<close> and \<open>os.Stderr\<close>.
  \<^item> \<open>streams\<close>: the bytes each ordinary stream has received so far.
  \<^item> \<open>pipes\<close>: the buffers of each pipe, oldest first, each holding the bytes written
    to it and not yet read; \<open>next_pipe\<close> is the next unused pipe number.
  \<^item> \<open>page_size\<close>, \<open>pipe_slots\<close>: the size of one pipe buffer (a page, 4096 bytes on
    most systems) and the number of buffers a pipe may hold (16 by default on Linux).
  \<^item> \<open>closed_files\<close>: the files on which \<open>Close\<close> has been called.
  \<^item> \<open>pipe_fault\<close>: the error \<open>os.Pipe\<close> returns, if the system refuses a new pipe.
  \<^item> \<open>rpc_reply\<close>: the error a \<open>Call\<close> on a client returns for a service method
    (connection shut down, error reply of the agent), or \<open>None\<close> when the call succeeds.
  \<^item> \<open>executable\<close>: what \<open>os.Executable\<close> returns.
  \<^item> \<open>cwd\<close>: the working directory of the process.
  \<^item> \<open>sockets\<close>: for each absolute path, \<open>None\<close> if an agent listens there, or the
    error a connection attempt gets.
  \<^item> \<open>conns\<close>: the connections the process holds open, by address.
  \<^item> \<open>trace\<close>: the operations performed so far, oldest first.
\<close>

record world =
  Stdout :: handle
  Stderr :: handle
  streams :: "nat \<Rightarrow> string"
  pipes :: "nat \<Rightarrow> string list"
  next_pipe :: nat
  page_size :: nat
  pipe_slots :: nat
  closed_files :: "os_File set"
  pipe_fault :: "error option"
  rpc_reply :: "client \<Rightarrow> string \<Rightarrow> error option"
  executable :: "error + string"
  cwd :: string
  sockets :: "string \<Rightarrow> error option"
  conns :: "string list"
  trace :: "event list"

definition emit :: "event \<Rightarrow> world \<Rightarrow> world" where
  "emit ev s = s\<lparr>trace := trace s @ [ev]\<rparr>"

subsection \<open>Files and pipes\<close>

text \<open>\<open>os.Pipe()\<close>: a connected pair (read end, write end), or two nil files and an error.\<close>

definition os_Pipe :: "world \<Rightarrow> (handle \<times> handle \<times> error option) \<times> world" where
  "os_Pipe s =
     (case pipe_fault s of
        Some e \<Rightarrow> ((None, None, Some e), emit (EvPipe None None (Some e)) s)
      | None \<Rightarrow>
          (let p = next_pipe s;
               r = Some (PipeRead p);
               w = Some (PipeWrite p)
           in ((r, w, None),
               emit (EvPipe r w None)
                 (s\<lparr>pipes := (pipes s)(p := []), next_pipe := Suc p,
                    closed_files := closed_files s - {PipeRead p, PipeWrite p}\<rparr>))))"

text \<open>The assignments \<open>os.Stdout = h\<close> and \<open>os.Stderr = h\<close>.\<close>

definition set_Stdout :: "handle \<Rightarrow> world \<Rightarrow> world" where
  "set_Stdout h s = emit (EvSetStdout h) (s\<lparr>Stdout := h\<rparr>)"

definition set_Stderr :: "handle \<Rightarrow> world \<Rightarrow> world" where
  "set_Stderr h s = emit (EvSetStderr h) (s\<lparr>Stderr := h\<rparr>)"

text \<open>
  A pipe of the system is a ring of buffers of one page each.  A write to it
  (\<open>pipe_write\<close> in \<open>fs/pipe.c\<close> of Linux) first tries to merge the part of the data
  beyond whole pages, \<open>chars = total_len & (PAGE_SIZE-1)\<close> bytes, into the last buffer,
  which works if the pipe is not empty and that buffer has room for them; what is left
  goes into new buffers, a page each.  \<open>chunks\<close> cuts the data into pages, and
  \<open>pipe_write page slots b\<close> is the list of buffers after the write, were there room
  for all of it.
\<close>

function chunks :: "nat \<Rightarrow> string \<Rightarrow> string list" where
  "chunks n b = (if b = [] then [] else if n = 0 then [b] else take n b # chunks n (drop n b))"
  by pat_completeness auto
termination
  by (relation "measure (\<lambda>(n, b). length b)") auto

declare chunks.simps [simp del]

definition pipe_write :: "nat \<Rightarrow> string list \<Rightarrow> string \<Rightarrow> string list" where
  "pipe_write page slots b =
     (let chars = length b mod page;
          merge = (chars \<noteq> 0 \<and> slots \<noteq> [] \<and> length (last slots) + chars \<le> page);
          slots' = (if merge then butlast slots @ [last slots @ take chars b] else slots);
          rest = (if merge then drop chars b else b)
      in slots' @ chunks page rest)"

text \<open>
  \<open>f.Write(b)\<close>.  On a nil file and on a closed file it returns an error and writes
  nothing.  On a stream the bytes are appended.  On the write end of a pipe whose read
  end is closed it returns an error, and a write of no bytes returns at once.
  Otherwise the bytes go into the buffers of the pipe as \<open>pipe_write\<close> says, if the
  pipe has that many buffers; if it has not, the call waits until a reader frees one,
  and as the process has no other thread of control that reads, it never returns: the
  result is \<open>None\<close>.
\<close>

definition File_Write :: "handle \<Rightarrow> string \<Rightarrow> world \<Rightarrow> ((nat \<times> error option) \<times> world) option" where
  "File_Write h b s =
     (case h of
        None \<Rightarrow> Some ((0, Some ErrInvalid), emit (EvWrite h []) s)
      | Some f \<Rightarrow>
          if f \<in> closed_files s then Some ((0, Some ErrClosed), emit (EvWrite h []) s)
          else
            (case f of
               Stream n \<Rightarrow>
                 Some ((length b, None),
                       emit (EvWrite h b) (s\<lparr>streams := (streams s)(n := streams s n @ b)\<rparr>))
             | PipeWrite p \<Rightarrow>
                 if PipeRead p \<in> closed_files s
                 then Some ((0, Some ErrPipe), emit (EvWrite h []) s)
                 else if b = [] then Some ((0, None), emit (EvWrite h []) s)
                 else if length (pipe_write (page_size s) (pipes s p) b) \<le> pipe_slots s
                 then Some ((length b, None),
                            emit (EvWrite h b)
                              (s\<lparr>pipes := (pipes s)(p := pipe_write (page_size s) (pipes s p) b)\<rparr>))
                 else None
             | PipeRead p \<Rightarrow> Some ((0, Some ErrBadFd), emit (EvWrite h []) s)))"

text \<open>\<open>f.Close()\<close>: an error on a nil file and on a file closed before.\<close>

definition File_Close :: "handle \<Rightarrow> world \<Rightarrow> error option \<times> world" where
  "File_Close h s =
     (case h of
        None \<Rightarrow> (Some ErrInvalid, emit (EvClose h (Some ErrInvalid)) s)
      | Some f \<Rightarrow>
          if f \<in> closed_files s then (Some ErrClosed, emit (EvClose h (Some ErrClosed)) s)
          else (None, emit (EvClose h None) (s\<lparr>closed_files := insert f (closed_files s)\<rparr>)))"

text \<open>
  \<open>var buf bytes.Buffer; io.Copy(&buf, r)\<close>: reads \<open>r\<close> until end of file and returns the
  buffer with the error of the copy.  A nil or closed file gives an error at once and an
  empty buffer.  The read end of a pipe yields the buffered bytes and then end of file
  once the write end is closed; while the write end is open the copy waits for more
  bytes, so with no writer left running it never returns (\<open>None\<close>).
\<close>

definition io_Copy :: "handle \<Rightarrow> world \<Rightarrow> ((string \<times> error option) \<times> world) option" where
  "io_Copy r s =
     (case r of
        None \<Rightarrow> Some (([], Some ErrInvalid), emit (EvCopy r []) s)
      | Some f \<Rightarrow>
          if f \<in> closed_files s then Some (([], Some ErrClosed), emit (EvCopy r []) s)
          else
            (case f of
               PipeRead p \<Rightarrow>
                 if PipeWrite p \<in> closed_files s
                 then Some ((concat (pipes s p), None),
                            emit (EvCopy r (concat (pipes s p)))
                              (s\<lparr>pipes := (pipes s)(p := [])\<rparr>))
                 else None
             | PipeWrite p \<Rightarrow> Some (([], Some ErrBadFd), emit (EvCopy r []) s)
             | Stream n \<Rightarrow> Some (([], Some ErrBadFd), emit (EvCopy r []) s)))"

subsection \<open>The remote logging call\<close>

text \<open>\<open>client.Call(serviceMethod, args, nil)\<close>: a synchronous call; its result is the
  error of the call, which the environment decides.\<close>

definition rpc_Call :: "client \<Rightarrow> string \<Rightarrow> LogMessage \<Rightarrow> world \<Rightarrow> error option \<times> world" where
  "rpc_Call c m args s = (rpc_reply s c m, emit (EvCall c m args (rpc_reply s c m)) s)"

text \<open>
  \<^verbatim>\<open>
  func log(client *rpc.Client, message string, isError bool) {
      var log = &flexvolume.LogMessage{Message: message, IsError: isError}
      client.Call("FlexvolumeController.Log", log, nil)
  }
  \<close>
  The function has no result and the error of \<open>Call\<close> is dropped.
\<close>

definition log :: "client \<Rightarrow> string \<Rightarrow> bool \<Rightarrow> world \<Rightarrow> world" where
  "log c message isError s =
     (let lg = \<lparr>Message = message, IsError = isError\<rparr>;
          (_, s') = rpc_Call c ''FlexvolumeController.Log'' lg s
      in s')"

subsection \<open>The output capture scope\<close>

text \<open>
  The wrapped function \<open>fn func() error\<close> is any Go code: it gets the world and either
  returns an \<open>error\<close> (possibly nil), or panics, or never returns (\<open>None\<close>).
\<close>

datatype fn_exit = Return "error option" | Panic string

type_synonym go_fn = "world \<Rightarrow> (fn_exit \<times> world) option"

text \<open>
  \<^verbatim>\<open>
  func redirectStdout(client *rpc.Client, fn func() error) error {
      oldStdout := os.Stdout
      oldStderr := os.Stderr
      r, w, _ := os.Pipe()
      os.Stdout = w
      os.Stderr = w
      defer func() {
          os.Stdout = oldStdout
          os.Stderr = oldStderr
      }()
      err := fn()
      w.Close()
      var buf bytes.Buffer
      io.Copy(&buf, r)
      log(client, buf.String(), false)
      return err
  }
  \<close>
  The deferred function runs when \<open>redirectStdout\<close> leaves, by its \<open>return\<close> or by a
  panic of \<open>fn\<close> passing through; a panic skips the statements after \<open>fn()\<close>.
\<close>

definition redirectStdout :: "client \<Rightarrow> go_fn \<Rightarrow> world \<Rightarrow> (fn_exit \<times> world) option" where
  "redirectStdout c fn s0 =
     (let oldStdout = Stdout s0;
          oldStderr = Stderr s0;
          ((r, w, _), s1) = os_Pipe s0;
          s2 = set_Stdout w s1;
          s3 = set_Stderr w s2;
          deferred = (\<lambda>s. set_Stderr oldStderr (set_Stdout oldStdout s))
      in case fn s3 of
           None \<Rightarrow> None
         | Some (Panic v, s4) \<Rightarrow> Some (Panic v, deferred s4)
         | Some (Return err, s4) \<Rightarrow>
             (let (_, s5) = File_Close w s4
              in case io_Copy r s5 of
                   None \<Rightarrow> None
                 | Some ((buf, _), s6) \<Rightarrow>
                     (let s7 = log c buf False s6
                      in Some (Return err, deferred s7))))"

text \<open>A wrapped function that prints: a sequence of writes to whatever \<open>os.Stdout\<close> and
  \<open>os.Stderr\<close> are at that moment (as \<open>fmt.Print\<close> and \<open>fmt.Fprint(os.Stderr, ...)\<close> do,
  dropping the error of the write), followed by its exit.\<close>

datatype stmt = PrintOut string | PrintErr string


fun run_stmts :: "stmt list \<Rightarrow> world \<Rightarrow> world option" where
  "run_stmts [] s = Some s"
| "run_stmts (PrintOut b # rest) s =
     (case File_Write (Stdout s) b s of None \<Rightarrow> None | Some (_, s') \<Rightarrow> run_stmts rest s')"
| "run_stmts (PrintErr b # rest) s =
     (case File_Write (Stderr s) b s of None \<Rightarrow> None | Some (_, s') \<Rightarrow> run_stmts rest s')"

definition printing_fn :: "stmt list \<Rightarrow> fn_exit \<Rightarrow> go_fn" where
  "printing_fn body ex s = map_option (Pair ex) (run_stmts body s)"


subsection \<open>Paths\<close>

text \<open>
  Package \<open>path\<close> of the Go library, on byte strings.  \<open>path.Clean\<close> scans the path
  once, writing the result to an output buffer \<open>out\<close>; \<open>dotdot\<close> is the length of the
  prefix of \<open>out\<close> that a \<open>..\<close> element may not remove.  \<open>backtrack\<close> is the inner
  loop that removes the last element of the buffer:
  \<^verbatim>\<open>
  out.w--
  for out.w > dotdot && out.index(out.w) != '/' { out.w-- }
  \<close>
\<close>

fun backtrack :: "string \<Rightarrow> nat \<Rightarrow> nat \<Rightarrow> nat" where
  "backtrack buf dotdot 0 = 0"
| "backtrack buf dotdot (Suc w) =
     (if Suc w > dotdot \<and> buf ! Suc w \<noteq> CHR ''/'' then backtrack buf dotdot w else Suc w)"

text \<open>The test \<open>r+1 == n || path[r+1] == '/'\<close>: the element ends here.\<close>

definition at_end :: "string \<Rightarrow> bool" where
  "at_end rest = (case rest of [] \<Rightarrow> True | c # _ \<Rightarrow> c = CHR ''/'')"

text \<open>The main loop of \<open>path.Clean\<close>; \<open>rest\<close> is the unread part \<open>path[r:]\<close>.  Its four
  cases, in the order of the source: an empty element, a \<open>.\<close> element, a \<open>..\<close> element,
  a real element.  As in the source, the third test reads the next byte (\<open>hd rest\<close>)
  only where there is one: with \<open>c\<close> a dot and nothing after it the second case
  applies.\<close>

function clean_loop :: "bool \<Rightarrow> string \<Rightarrow> string \<Rightarrow> nat \<Rightarrow> string" where
  "clean_loop rooted [] out dotdot = out"
| "clean_loop rooted (c # rest) out dotdot =
     (if c = CHR ''/'' then clean_loop rooted rest out dotdot
      else if c = CHR ''.'' \<and> at_end rest then clean_loop rooted rest out dotdot
      else if c = CHR ''.'' \<and> hd rest = CHR ''.'' \<and> at_end (tl rest) then
        (if length out > dotdot then
           clean_loop rooted (tl rest) (take (backtrack out dotdot (length out - 1)) out) dotdot
         else if rooted then clean_loop rooted (tl rest) out dotdot
         else
           (let out' = (if length out > 0 then out @ ''/'' else out) @ ''..''
            in clean_loop rooted (tl rest) out' (length out')))
      else
        (let out' = (if (if rooted then length out \<noteq> 1 else length out \<noteq> 0)
                     then out @ ''/'' else out)
         in clean_loop rooted (dropWhile (\<lambda>x. x \<noteq> CHR ''/'') rest)
              (out' @ c # takeWhile (\<lambda>x. x \<noteq> CHR ''/'') rest) dotdot))"
  by pat_completeness auto
termination
  by (relation "measure (\<lambda>(rooted, rest, out, dotdot). length rest)")
     (auto simp: less_Suc_eq_le length_dropWhile_le intro: le_trans [OF _ le_SucI])

declare clean_loop.simps [simp del]

definition path_Clean :: "string \<Rightarrow> string" where
  "path_Clean p =
     (case p of
        [] \<Rightarrow> ''.''
      | c # rest \<Rightarrow>
          (let out = (if c = CHR ''/'' then clean_loop True rest ''/'' 1
                      else clean_loop False p [] 0)
           in if out = [] then ''.'' else out))"

text \<open>\<open>path.Split\<close> cuts after the last slash; \<open>path.Dir\<close> cleans the first part.\<close>

definition path_Split :: "string \<Rightarrow> string \<times> string" where
  "path_Split p =
     (let file = rev (takeWhile (\<lambda>x. x \<noteq> CHR ''/'') (rev p))
      in (take (length p - length file) p, file))"

definition path_Dir :: "string \<Rightarrow> string" where
  "path_Dir p = path_Clean (fst (path_Split p))"

text \<open>\<open>path.Join\<close> skips leading empty elements, joins the others with slashes and
  cleans the result; with no non-empty element the result is empty.\<close>

definition path_Join :: "string list \<Rightarrow> string" where
  "path_Join elem =
     (case dropWhile (\<lambda>e. e = []) elem of
        [] \<Rightarrow> []
      | e # es \<Rightarrow> path_Clean (foldl (\<lambda>buf x. buf @ ''/'' @ x) e es))"

definition rooted_path :: "string \<Rightarrow> bool" where
  "rooted_path p = (case p of [] \<Rightarrow> False | c # _ \<Rightarrow> c = CHR ''/'')"

text \<open>How the system resolves a path given to a system call: a relative one is taken
  from the working directory.\<close>

definition resolve_path :: "string \<Rightarrow> string \<Rightarrow> string" where
  "resolve_path dir p = (if rooted_path p then p else dir @ ''/'' @ p)"

subsection \<open>Connecting to the agent\<close>

text \<open>\<open>os.Executable()\<close>: the path of the running binary (\<open>Inr\<close>), or an error
  (\<open>Inl\<close>).\<close>

definition os_Executable :: "world \<Rightarrow> (error + string) \<times> world" where
  "os_Executable s = (executable s, emit EvExecutable s)"

text \<open>
  \<open>net.Dial("unix", address)\<close>.  The system resolves a relative address against the
  working directory.  If no agent accepts there, the result is an error (\<open>Inl\<close>) that
  names the operation, the address and the cause, and nothing stays open.  Otherwise
  the connection is added to the open ones and returned (\<open>Inr\<close>, by its number).
\<close>

definition net_Dial_unix :: "string \<Rightarrow> world \<Rightarrow> (error + nat) \<times> world" where
  "net_Dial_unix address s =
     (let s' = emit (EvDial ''unix'' address) s;
          target = resolve_path (cwd s) address
      in case sockets s target of
           Some cause \<Rightarrow>
             (Inl (Error (''dial unix '' @ address @ '': '' @ Error_msg cause)), s')
         | None \<Rightarrow> (Inr (length (conns s)), s'\<lparr>conns := conns s @ [target]\<rparr>))"

text \<open>\<open>rpc.NewClient(conn)\<close>: the client that talks over the connection.\<close>

definition rpc_NewClient :: "nat \<Rightarrow> world \<Rightarrow> client \<times> world" where
  "rpc_NewClient conn s = (conn, emit (EvNewClient conn) s)"

text \<open>
  \<^verbatim>\<open>
  func getRPCClient() (*rpc.Client, error) {
      ex, err := os.Executable()
      if err != nil {
          return nil, fmt.Errorf("error getting path of the Rook flexvolume driver: %v", err)
      }
      unixSocketFile := path.Join(path.Dir(ex), path.Join(flexvolume.UnixSocketName))
      conn, err := net.Dial("unix", unixSocketFile)
      if err != nil {
          return nil, fmt.Errorf("error connecting to socket %s: %+v", unixSocketFile, err)
      }
      return rpc.NewClient(conn), nil
  }
  \<close>
  The constant \<open>flexvolume.UnixSocketName\<close> is declared in another package; it is the
  parameter \<open>unixSocketName\<close> here (the comment at its use gives \<open>.rook.sock\<close>).
  \<open>fmt.Errorf\<close> with \<open>%v\<close> or \<open>%+v\<close> of an error inserts the text of that error.
\<close>

definition getRPCClient :: "string \<Rightarrow> world \<Rightarrow> (client option \<times> error option) \<times> world" where
  "getRPCClient unixSocketName s0 =
     (case os_Executable s0 of
        (Inl err, s1) \<Rightarrow>
          ((None, Some (Error (''error getting path of the Rook flexvolume driver: ''
                                 @ Error_msg err))), s1)
      | (Inr ex, s1) \<Rightarrow>
          (let unixSocketFile = path_Join [path_Dir ex, path_Join [unixSocketName]]
           in case net_Dial_unix unixSocketFile s1 of
                (Inl err, s2) \<Rightarrow>
                  ((None, Some (Error (''error connecting to socket '' @ unixSocketFile
                                         @ '': '' @ Error_msg err))), s2)
              | (Inr conn, s2) \<Rightarrow>
                  (let (cl, s3) = rpc_NewClient conn s2 in ((Some cl, None), s3))))"

subsection \<open>Observations\<close>

text \<open>The world in which \<open>redirectStdout\<close> calls \<open>fn\<close>: after \<open>os.Pipe()\<close> and the
  two assignments.  \<open>read_end\<close> and \<open>write_end\<close> are the local variables \<open>r\<close> and
  \<open>w\<close>.\<close>

definition scope_entry :: "world \<Rightarrow> world" where
  "scope_entry s0 = (let ((r, w, _), s1) = os_Pipe s0 in set_Stderr w (set_Stdout w s1))"

definition read_end :: "world \<Rightarrow> handle" where
  "read_end s0 = fst (fst (os_Pipe s0))"

definition write_end :: "world \<Rightarrow> handle" where
  "write_end s0 = fst (snd (fst (os_Pipe s0)))"

text \<open>The bytes that wait behind a read end: the captured output.\<close>

definition captured :: "handle \<Rightarrow> world \<Rightarrow> string" where
  "captured r s =
     (case r of
        Some (PipeRead p) \<Rightarrow>
          if PipeRead p \<in> closed_files s then [] else concat (pipes s p)
      | _ \<Rightarrow> [])"



text \<open>The Log Records sent over the control channel, in order.\<close>

fun log_records :: "event list \<Rightarrow> LogMessage list" where
  "log_records [] = []"
| "log_records (EvCall c m lm r # evs) =
     (if m = ''FlexvolumeController.Log'' then lm # log_records evs else log_records evs)"
| "log_records (ev # evs) = log_records evs"

text \<open>The addresses of the connection attempts, in order.\<close>

fun dialled :: "event list \<Rightarrow> string list" where
  "dialled [] = []"
| "dialled (EvDial n a # evs) = a # dialled evs"
| "dialled (ev # evs) = dialled evs"

text \<open>Closing a file, draining a file and forwarding a record are the clean-up steps of
  the capture scope.  \<open>cleanup_after_restore h tr\<close> says that in the trace \<open>tr\<close> none of
  them happens before \<open>os.Stdout\<close> is set back to \<open>h\<close>.\<close>

fun is_cleanup :: "event \<Rightarrow> bool" where
  "is_cleanup (EvClose h e) = True"
| "is_cleanup (EvCopy h b) = True"
| "is_cleanup (EvCall c m lm e) = True"
| "is_cleanup ev = False"

fun cleanup_after_restore :: "handle \<Rightarrow> event list \<Rightarrow> bool" where
  "cleanup_after_restore h [] = True"
| "cleanup_after_restore h (ev # evs) =
     (if ev = EvSetStdout h then True
      else if is_cleanup ev then False
      else cleanup_after_restore h evs)"

text \<open>A path element that \<open>path.Clean\<close> keeps as it is, and the absolute path made of
  such elements.\<close>

definition plain_elem :: "string \<Rightarrow> bool" where
  "plain_elem c = (c \<noteq> [] \<and> CHR ''/'' \<notin> set c \<and> c \<noteq> ''.'' \<and> c \<noteq> ''..'')"

definition abs_path :: "string list \<Rightarrow> string" where
  "abs_path cs = concat (map (\<lambda>c. CHR ''/'' # c) cs)"

text \<open>What the last case of \<open>clean_loop\<close> does to the output buffer for an element
  \<open>c\<close>: a slash unless the buffer is at its start, then the element.\<close>

definition add_elem :: "bool \<Rightarrow> string \<Rightarrow> string \<Rightarrow> string" where
  "add_elem rooted out c =
     (if (if rooted then length out \<noteq> 1 else length out \<noteq> 0) then out @ ''/'' else out) @ c"

text \<open>A process with its terminal on both standard streams, pipes of 16 pages, the
  driver installed in the plugin directory and an agent that answers.\<close>

definition world0 :: world where
  "world0 =
     \<lparr>Stdout = Some (Stream 1), Stderr = Some (Stream 2), streams = (\<lambda>_. []),
      pipes = (\<lambda>_. []), next_pipe = 0, page_size = 4096, pipe_slots = 16, closed_files = {},
      pipe_fault = None, rpc_reply = (\<lambda>_ _. None),
      executable = Inr ''/usr/libexec/kubernetes/plugin/volume/rook.io~rook/rook'',
      cwd = ''/root'', sockets = (\<lambda>_. None), conns = [], trace = []\<rparr>"

section \<open>Properties of the output capture scope\<close>

lemma log_records_append: "log_records (xs @ ys) = log_records xs @ log_records ys"
  by (induction xs rule: log_records.induct) simp_all

lemma dialled_append: "dialled (xs @ ys) = dialled xs @ dialled ys"
  by (induction xs rule: dialled.induct) simp_all

lemmas prim_defs = os_Pipe_def set_Stdout_def set_Stderr_def emit_def File_Close_def
  io_Copy_def log_def rpc_Call_def

text \<open>What \<open>redirectStdout\<close> does after \<open>fn\<close> has returned: the write end is closed, the
  read end is drained, the captured bytes are logged with \<open>isError = false\<close>, and only
  then the two handles are set back.\<close>

lemma redirectStdout_Return:
  assumes "fn (scope_entry w) = Some (Return err, u)"
  shows "\<exists>s'. redirectStdout c fn w = Some (Return err, s')
      \<and> Stdout s' = Stdout w \<and> Stderr s' = Stderr w \<and> streams s' = streams u
      \<and> trace s' = trace u @
           [EvClose (write_end w) (fst (File_Close (write_end w) u)),
            EvCopy (read_end w) (captured (read_end w) u),
            EvCall c ''FlexvolumeController.Log''
              \<lparr>Message = captured (read_end w) u, IsError = False\<rparr>
              (rpc_reply u c ''FlexvolumeController.Log''),
            EvSetStdout (Stdout w), EvSetStderr (Stderr w)]"
  using assms
  by (cases "pipe_fault w")
     (simp_all add: redirectStdout_def scope_entry_def read_end_def write_end_def captured_def
        prim_defs Let_def split: prod.splits option.splits)

text \<open>A panic of \<open>fn\<close> runs the deferred function and nothing else.\<close>

lemma redirectStdout_Panic:
  assumes "fn (scope_entry w) = Some (Panic v, u)"
  shows "redirectStdout c fn w =
     Some (Panic v, set_Stderr (Stderr w) (set_Stdout (Stdout w) u))"
  using assms
  by (cases "pipe_fault w")
     (simp_all add: redirectStdout_def scope_entry_def prim_defs Let_def
        split: prod.splits option.splits)

lemma redirectStdout_None:
  assumes "fn (scope_entry w) = None"
  shows "redirectStdout c fn w = None"
  using assms
  by (cases "pipe_fault w")
     (simp_all add: redirectStdout_def scope_entry_def prim_defs Let_def
        split: prod.splits option.splits)

text \<open>\<open>redirectStdout\<close> leaves the way \<open>fn\<close> leaves, with the same value.\<close>

lemma redirectStdout_exit:
  "map_option fst (redirectStdout c fn w) = map_option fst (fn (scope_entry w))"
proof (cases "fn (scope_entry w)")
  case None
  then show ?thesis by (simp add: redirectStdout_None)
next
  case (Some a)
  obtain ex u where a: "a = (ex, u)" by (cases a)
  show ?thesis
  proof (cases ex)
    case (Return err)
    with Some a redirectStdout_Return [where fn=fn and w=w and err=err and u=u and c=c] show ?thesis by auto
  next
    case (Panic v)
    with Some a redirectStdout_Panic [where fn=fn and w=w and v=v and u=u and c=c] show ?thesis by auto
  qed
qed

subsection \<open>Functions that print\<close>




lemma chunks_Nil: "chunks n [] = []"
  by (simp add: chunks.simps)

lemma chunks_small: "b \<noteq> [] \<Longrightarrow> length b \<le> n \<Longrightarrow> chunks n b = [b]"
  by (subst chunks.simps) (auto simp: chunks.simps)


text \<open>Some writes into a pipe of 4096-byte pages, by the lengths of the buffers: a
  small write after a small one merges if the page has room and takes a new buffer if
  not; a large write merges its odd bytes and takes a buffer for each page.\<close>

lemma pipe_write_examples:
  "map length (pipe_write 4096 [] (replicate 2049 c)) = [2049]"
  "map length (pipe_write 4096 [replicate 2049 c] (replicate 2049 c)) = [2049, 2049]"
  "map length (pipe_write 4096 [replicate 2049 c] (replicate 2047 c)) = [4096]"
  "map length (pipe_write 4096 [replicate 1 c] (replicate 8193 c)) = [2, 4096, 4096]"
  "map length (pipe_write 4096 [replicate 4096 c] (replicate 1 c)) = [4096, 1]"
  by (simp_all add: pipe_write_def chunks.simps Let_def)






lemma run_stmts_nil:
  assumes "Stdout s = None" "Stderr s = None"
  shows "run_stmts body s = Some (s\<lparr>trace := trace s @ map (\<lambda>st. EvWrite None []) body\<rparr>)"
  using assms
proof (induction body arbitrary: s)
  case Nil
  then show ?case by simp
next
  case (Cons st body)
  let ?s1 = "emit (EvWrite None []) s"
  have step: "run_stmts (st # body) s = run_stmts body ?s1"
    using Cons.prems by (cases st) (simp_all add: File_Write_def)
  have "run_stmts body ?s1 = Some (?s1\<lparr>trace := trace ?s1 @ map (\<lambda>st. EvWrite None []) body\<rparr>)"
    using Cons.prems by (intro Cons.IH) (simp_all add: emit_def)
  with step show ?case by (simp add: emit_def)
qed

lemma log_records_writes [simp]: "log_records (map (\<lambda>st. EvWrite h (f st)) body) = []"
  by (induction body) simp_all


lemma scope_entry_fault:
  assumes "pipe_fault w = Some e"
  shows "scope_entry w =
     w\<lparr>Stdout := None, Stderr := None,
        trace := trace w @ [EvPipe None None (Some e), EvSetStdout None, EvSetStderr None]\<rparr>"
    and "read_end w = None"
    and "write_end w = None"
  using assms by (simp_all add: scope_entry_def read_end_def write_end_def prim_defs Let_def)



lemma printing_fn_no_pipe:
  assumes "pipe_fault w = Some e"
  shows "\<exists>u. printing_fn body ex (scope_entry w) = Some (ex, u)
     \<and> captured (read_end w) u = []
     \<and> streams u = streams w
     \<and> log_records (trace u) = log_records (trace w)"
  using assms
  by (simp add: printing_fn_def scope_entry_fault run_stmts_nil captured_def log_records_append)

section \<open>Properties of the path functions\<close>

text \<open>On an absolute path made of plain elements the functions of package \<open>path\<close> do
  what their names say: \<open>path.Dir\<close> drops the last element and \<open>path.Join\<close> adds
  one.\<close>

lemma at_end_simps [simp]: "at_end []" "at_end (c # cs) = (c = CHR ''/'')"
  by (simp_all add: at_end_def)

lemma plain_elem_takeWhile:
  assumes "CHR ''/'' \<notin> set xs" "at_end rest"
  shows "takeWhile (\<lambda>x. x \<noteq> CHR ''/'') (xs @ rest) = xs"
    and "dropWhile (\<lambda>x. x \<noteq> CHR ''/'') (xs @ rest) = rest"
  using assms by (induction xs) (auto simp: at_end_def split: list.splits)

lemma clean_loop_plain:
  assumes "plain_elem c" "at_end rest"
  shows "clean_loop rooted (c @ rest) out d =
     clean_loop rooted rest
       ((if (if rooted then length out \<noteq> 1 else length out \<noteq> 0) then out @ ''/'' else out) @ c) d"
proof -
  from assms(1) obtain x xs where c: "c = x # xs" and x: "x \<noteq> CHR ''/''"
    and xs: "CHR ''/'' \<notin> set xs"
    by (cases c) (auto simp: plain_elem_def)
  have dot: "\<not> (x = CHR ''.'' \<and> at_end (xs @ rest))"
    using assms c xs by (cases xs) (auto simp: plain_elem_def)
  have dotdot: "\<not> (x = CHR ''.'' \<and> hd (xs @ rest) = CHR ''.'' \<and> at_end (tl (xs @ rest)))"
  proof (cases xs)
    case Nil
    with assms c show ?thesis by (auto simp: plain_elem_def)
  next
    case (Cons y ys)
    with assms c xs show ?thesis by (cases ys) (auto simp: plain_elem_def)
  qed
  have "clean_loop rooted (c @ rest) out d = clean_loop rooted (x # (xs @ rest)) out d"
    by (simp add: c)
  also have "\<dots> =
     (let out' = (if (if rooted then length out \<noteq> 1 else length out \<noteq> 0)
                  then out @ ''/'' else out)
      in clean_loop rooted (dropWhile (\<lambda>x. x \<noteq> CHR ''/'') (xs @ rest))
           (out' @ x # takeWhile (\<lambda>x. x \<noteq> CHR ''/'') (xs @ rest)) d)"
    by (subst clean_loop.simps(2)) (simp only: x dot dotdot if_False)
  also have "\<dots> =
     clean_loop rooted rest
       ((if (if rooted then length out \<noteq> 1 else length out \<noteq> 0) then out @ ''/'' else out) @ c) d"
    by (simp add: plain_elem_takeWhile [OF xs assms(2)] c Let_def)
  finally show ?thesis .
qed

lemma at_end_abs_path: "at_end tail \<Longrightarrow> at_end (abs_path cs @ tail)"
  by (cases cs) (simp_all add: abs_path_def)

lemma clean_loop_abs_path:
  assumes "list_all plain_elem cs" "tail = [] \<or> tail = ''/''"
  shows "clean_loop rooted (abs_path cs @ tail) out d = foldl (add_elem rooted) out cs"
  using assms(1)
proof (induction cs arbitrary: out)
  case Nil
  from assms(2) show ?case
    by (auto simp: abs_path_def clean_loop.simps)
next
  case (Cons c cs)
  have e: "at_end (abs_path cs @ tail)"
    using assms(2) by (intro at_end_abs_path) auto
  have "clean_loop rooted (abs_path (c # cs) @ tail) out d =
        clean_loop rooted (c @ (abs_path cs @ tail)) out d"
    by (simp add: abs_path_def clean_loop.simps(2))
  also have "\<dots> = clean_loop rooted (abs_path cs @ tail) (add_elem rooted out c) d"
    using Cons.prems e by (simp add: clean_loop_plain add_elem_def)
  also have "\<dots> = foldl (add_elem rooted) (add_elem rooted out c) cs"
    using Cons.prems by (intro Cons.IH) simp
  finally show ?case by simp
qed

lemma foldl_add_elem:
  assumes "2 \<le> length out"
  shows "foldl (add_elem True) out cs = out @ abs_path cs"
  using assms
proof (induction cs arbitrary: out)
  case Nil
  show ?case by (simp add: abs_path_def)
next
  case (Cons c cs)
  have "2 \<le> length (add_elem True out c)"
    using Cons.prems by (simp add: add_elem_def)
  from Cons.IH [OF this] Cons.prems show ?case
    by (simp add: add_elem_def abs_path_def)
qed

lemma foldl_add_elem_root:
  assumes "list_all plain_elem cs" "cs \<noteq> []"
  shows "foldl (add_elem True) ''/'' cs = abs_path cs"
proof -
  from assms obtain c cs' where cs: "cs = c # cs'" and c: "c \<noteq> []"
    by (cases cs) (auto simp: plain_elem_def)
  have "2 \<le> length (add_elem True ''/'' c)"
    using c by (cases c) (simp_all add: add_elem_def)
  from foldl_add_elem [OF this] show ?thesis
    by (simp add: cs add_elem_def abs_path_def)
qed

text \<open>\<open>path.Clean\<close> on an absolute path of plain elements, with or without a trailing
  slash or a doubled leading slash.\<close>
lemma path_Clean_abs_path:
  assumes "list_all plain_elem cs" "cs \<noteq> []" "tail = [] \<or> tail = ''/''"
  shows "path_Clean (abs_path cs @ tail) = abs_path cs"
    and "path_Clean (CHR ''/'' # abs_path cs @ tail) = abs_path cs"
proof -
  from assms obtain c cs' where cs: "cs = c # cs'" and pc: "plain_elem c"
    and pcs: "list_all plain_elem cs'"
    by (cases cs) auto
  have ne: "abs_path cs \<noteq> []" by (simp add: cs abs_path_def)
  have "clean_loop True (c @ (abs_path cs' @ tail)) ''/'' 1 =
        clean_loop True (abs_path cs' @ tail) (add_elem True ''/'' c) 1"
    using pc assms(3) by (subst clean_loop_plain) (auto intro!: at_end_abs_path simp: add_elem_def)
  also have "\<dots> = foldl (add_elem True) ''/'' cs"
    using pcs assms(3) by (simp add: clean_loop_abs_path cs)
  also have "\<dots> = abs_path cs" using assms(1,2) by (rule foldl_add_elem_root)
  finally have one: "clean_loop True (c @ (abs_path cs' @ tail)) ''/'' 1 = abs_path cs" .
  have "path_Clean (abs_path cs @ tail) =
     (let out = clean_loop True (c @ (abs_path cs' @ tail)) ''/'' 1
      in if out = [] then ''.'' else out)"
    by (simp add: path_Clean_def cs abs_path_def)
  with one ne show "path_Clean (abs_path cs @ tail) = abs_path cs"
    by (simp add: Let_def)
  have "clean_loop True (abs_path cs @ tail) ''/'' 1 = foldl (add_elem True) ''/'' cs"
    using assms(1,3) by (rule clean_loop_abs_path)
  also have "\<dots> = abs_path cs" using assms(1,2) by (rule foldl_add_elem_root)
  finally have two: "clean_loop True (abs_path cs @ tail) ''/'' 1 = abs_path cs" .
  have "path_Clean (CHR ''/'' # abs_path cs @ tail) =
     (let out = clean_loop True (abs_path cs @ tail) ''/'' 1
      in if out = [] then ''.'' else out)"
    by (simp add: path_Clean_def)
  with two ne show "path_Clean (CHR ''/'' # abs_path cs @ tail) = abs_path cs"
    by (simp add: Let_def)
qed

lemma path_Clean_plain:
  assumes "plain_elem c"
  shows "path_Clean c = c"
proof -
  from assms obtain x xs where c: "c = x # xs" and x: "x \<noteq> CHR ''/''"
    by (cases c) (auto simp: plain_elem_def)
  have "clean_loop False (c @ []) [] 0 = clean_loop False [] c 0"
    using assms by (subst clean_loop_plain) simp_all
  then show ?thesis
    using x by (simp add: path_Clean_def c clean_loop.simps)
qed

lemma path_Split_abs_path:
  assumes "CHR ''/'' \<notin> set base"
  shows "path_Split (abs_path (dir @ [base])) = (abs_path dir @ ''/'', base)"
proof -
  have "\<forall>x\<in>set (rev base). x \<noteq> CHR ''/''" using assms by auto
  then have "takeWhile (\<lambda>x. x \<noteq> CHR ''/'') (rev base @ CHR ''/'' # rev (abs_path dir)) = rev base"
    by (simp add: takeWhile_tail takeWhile_eq_all_conv)
  then show ?thesis
    by (simp add: path_Split_def abs_path_def Let_def)
qed

lemma path_Dir_abs_path:
  assumes "list_all plain_elem dir" "plain_elem base"
  shows "path_Dir (abs_path (dir @ [base])) = (if dir = [] then ''/'' else abs_path dir)"
proof -
  have b: "CHR ''/'' \<notin> set base" using assms(2) by (simp add: plain_elem_def)
  have d: "path_Dir (abs_path (dir @ [base])) = path_Clean (abs_path dir @ ''/'')"
    by (simp add: path_Dir_def path_Split_abs_path [OF b])
  show ?thesis
  proof (cases "dir = []")
    case True
    have "path_Clean ''/'' = ''/''"
      by (simp add: path_Clean_def clean_loop.simps)
    with True d show ?thesis by (simp add: abs_path_def)
  next
    case False
    with assms path_Clean_abs_path(1) [of dir "''/''"] d show ?thesis
      by simp
  qed
qed

lemma unixSocketFile_abs_path:
  assumes "list_all plain_elem dir" "plain_elem base" "plain_elem name"
  shows "path_Join [path_Dir (abs_path (dir @ [base])), path_Join [name]] = abs_path (dir @ [name])"
proof -
  have n: "name \<noteq> []" using assms(3) by (simp add: plain_elem_def)
  have j: "path_Join [name] = name"
    using n assms(3) by (simp add: path_Join_def path_Clean_plain)
  show ?thesis
  proof (cases "dir = []")
    case True
    have d: "path_Dir (abs_path (dir @ [base])) = ''/''"
      using path_Dir_abs_path [of dir base] assms True by simp
    have "path_Clean (CHR ''/'' # abs_path [name] @ []) = abs_path [name]"
      using assms(3) by (intro path_Clean_abs_path(2)) simp_all
    then have "path_Join [''/'', name] = abs_path [name]"
      by (simp add: path_Join_def abs_path_def)
    with True d show ?thesis by (simp add: j)
  next
    case False
    then have ne: "abs_path dir \<noteq> []" by (cases dir) (simp_all add: abs_path_def)
    have d: "path_Dir (abs_path (dir @ [base])) = abs_path dir"
      using path_Dir_abs_path [of dir base] assms False by simp
    have "path_Clean (abs_path (dir @ [name]) @ []) = abs_path (dir @ [name])"
      using assms by (intro path_Clean_abs_path(1)) simp_all
    then have "path_Join [abs_path dir, name] = abs_path (dir @ [name])"
      using ne by (simp add: path_Join_def abs_path_def)
    then show ?thesis by (simp add: j d)
  qed
qed

text \<open>The socket address is absolute whenever the path of the executable is.\<close>

lemma backtrack_ge: "d \<le> w \<Longrightarrow> d \<le> backtrack buf d w"
  by (induction w) (auto simp: le_Suc_eq)

lemma rooted_path_take:
  assumes "rooted_path out" "1 \<le> n"
  shows "rooted_path (take n out)"
  using assms by (cases out; cases n) (simp_all add: rooted_path_def)

lemma rooted_path_append: "rooted_path out \<Longrightarrow> rooted_path (out @ xs)"
  by (cases out) (simp_all add: rooted_path_def)

lemma clean_loop_rooted:
  assumes "rooted" "rooted_path out" "1 \<le> d"
  shows "rooted_path (clean_loop rooted rest out d)"
  using assms
proof (induction rooted rest out d rule: clean_loop.induct)
  case (1 rooted out dotdot)
  then show ?case by (simp add: clean_loop.simps)
next
  case (2 rooted c rest out dotdot)
  have bt: "length out > dotdot \<Longrightarrow>
      rooted_path (take (backtrack out dotdot (length out - 1)) out)"
  proof -
    assume "length out > dotdot"
    then have "dotdot \<le> backtrack out dotdot (length out - 1)"
      by (intro backtrack_ge) simp
    with "2.prems"(3) have "1 \<le> backtrack out dotdot (length out - 1)" by simp
    with "2.prems"(2) show ?thesis by (rule rooted_path_take)
  qed
  show ?case
    using 2 bt
    by (subst clean_loop.simps(2)) (auto simp: Let_def rooted_path_append)
qed

lemma path_Clean_rooted:
  assumes "rooted_path p"
  shows "rooted_path (path_Clean p)"
proof -
  from assms obtain rest where p: "p = CHR ''/'' # rest"
    by (cases p) (simp_all add: rooted_path_def)
  have "rooted_path (clean_loop True rest ''/'' 1)"
    by (rule clean_loop_rooted) (simp_all add: rooted_path_def)
  then show ?thesis
    by (auto simp: path_Clean_def p Let_def rooted_path_def)
qed

lemma path_Dir_rooted:
  assumes "rooted_path p"
  shows "rooted_path (path_Dir p)"
proof -
  from assms obtain rest where p: "p = CHR ''/'' # rest"
    by (cases p) (simp_all add: rooted_path_def)
  have "length (takeWhile (\<lambda>x. x \<noteq> CHR ''/'') (rev rest @ ''/'')) \<le> length rest"
    by (simp add: takeWhile_tail) (metis length_rev length_takeWhile_le)
  then have "rooted_path (fst (path_Split p))"
    by (simp add: path_Split_def p Let_def rooted_path_def Suc_diff_le)
  then show ?thesis
    by (simp add: path_Dir_def path_Clean_rooted)
qed

lemma path_Join_rooted:
  assumes "rooted_path a"
  shows "rooted_path (path_Join [a, b])"
proof -
  from assms have "a \<noteq> []" by (auto simp: rooted_path_def)
  moreover have "rooted_path (a @ ''/'' @ b)"
    using assms by (rule rooted_path_append)
  ultimately show ?thesis
    by (simp add: path_Join_def path_Clean_rooted)
qed

lemma unixSocketFile_rooted:
  "rooted_path ex \<Longrightarrow> rooted_path (path_Join [path_Dir ex, path_Join [name]])"
  by (intro path_Join_rooted path_Dir_rooted)

section \<open>Properties of the logging call and of the connection\<close>

text \<open>A function that prints does not look at the answers of the agent: its run is the
  same whatever the logging call will return.\<close>

lemma File_Write_rpc_reply:
  "File_Write h b (s\<lparr>rpc_reply := rp\<rparr>) =
     map_option (\<lambda>(r, s'). (r, s'\<lparr>rpc_reply := rp\<rparr>)) (File_Write h b s)"
  by (simp add: File_Write_def emit_def split: option.splits os_File.splits)

lemma run_stmts_rpc_reply:
  "run_stmts body (s\<lparr>rpc_reply := rp\<rparr>) =
     map_option (\<lambda>s'. s'\<lparr>rpc_reply := rp\<rparr>) (run_stmts body s)"
proof (induction body arbitrary: s)
  case Nil
  show ?case by simp
next
  case (Cons st body)
  show ?case
  proof (cases st)
    case (PrintOut b)
    show ?thesis
    proof (cases "File_Write (Stdout s) b s")
      case None
      with PrintOut show ?thesis by (simp add: File_Write_rpc_reply)
    next
      case (Some a)
      obtain r s' where "a = (r, s')" by (cases a)
      with Some PrintOut Cons.IH [of s'] show ?thesis by (simp add: File_Write_rpc_reply)
    qed
  next
    case (PrintErr b)
    show ?thesis
    proof (cases "File_Write (Stderr s) b s")
      case None
      with PrintErr show ?thesis by (simp add: File_Write_rpc_reply)
    next
      case (Some a)
      obtain r s' where "a = (r, s')" by (cases a)
      with Some PrintErr Cons.IH [of s'] show ?thesis by (simp add: File_Write_rpc_reply)
    qed
  qed
qed

lemma scope_entry_rpc_reply:
  "scope_entry (w\<lparr>rpc_reply := rp\<rparr>) = (scope_entry w)\<lparr>rpc_reply := rp\<rparr>"
  by (cases "pipe_fault w") (simp_all add: scope_entry_def prim_defs Let_def)

lemma printing_fn_exit_rpc_reply:
  "map_option fst (printing_fn body ex (scope_entry (w\<lparr>rpc_reply := rp\<rparr>))) =
   map_option fst (printing_fn body ex (scope_entry w))"
  by (simp add: printing_fn_def scope_entry_rpc_reply run_stmts_rpc_reply option.map_comp comp_def)

text \<open>What \<open>getRPCClient\<close> dials, and what it returns without an executable path.\<close>

lemmas conn_defs = getRPCClient_def os_Executable_def net_Dial_unix_def rpc_NewClient_def emit_def
  Let_def

lemmas path_eval = path_Join_def path_Dir_def path_Split_def path_Clean_def clean_loop.simps
  at_end_def rooted_path_def resolve_path_def

lemma getRPCClient_dialled:
  assumes "executable w = Inr ex"
  shows "dialled (trace (snd (getRPCClient name w))) =
     dialled (trace w) @ [path_Join [path_Dir ex, path_Join [name]]]"
  using assms by (simp add: conn_defs dialled_append split: option.splits)

lemma getRPCClient_no_executable:
  assumes "executable w = Inl e"
  shows "getRPCClient name w =
     ((None, Some (Error (''error getting path of the Rook flexvolume driver: '' @ Error_msg e))),
      emit EvExecutable w)"
  using assms by (simp add: getRPCClient_def os_Executable_def)

lemma getRPCClient_cwd_dialled:
  "dialled (trace (snd (getRPCClient name (w\<lparr>cwd := d\<rparr>)))) =
   dialled (trace (snd (getRPCClient name w)))"
proof (cases "executable w")
  case (Inl e)
  then show ?thesis by (simp add: getRPCClient_no_executable emit_def)
next
  case (Inr ex)
  then show ?thesis by (simp add: getRPCClient_dialled)
qed

lemma getRPCClient_cwd_result:
  assumes "executable w = Inr ex" "rooted_path ex"
  shows "fst (getRPCClient name (w\<lparr>cwd := d\<rparr>)) = fst (getRPCClient name w)"
proof -
  have "rooted_path (path_Join [path_Dir ex, path_Join [name]])"
    using assms(2) by (rule unixSocketFile_rooted)
  with assms(1) show ?thesis
    by (simp add: conn_defs resolve_path_def split: option.splits)
qed

section \<open>The claims\<close>

lemmas eval_defs = redirectStdout_def printing_fn_def scope_entry_def read_end_def write_end_def
  captured_def world0_def File_Write_def pipe_write_def chunks_small chunks_Nil prim_defs Let_def

subsection \<open>C1: when the handles are restored\<close>

text \<open>
  C1, as amended.  The original standard-output and standard-error handles are restored
  on every exit path of \<open>redirectStdout\<close>, and the restoration is the last thing it
  does.  When \<open>fn\<close> returns, the write end of the pipe is closed, the read end is drained
  and the captured text is forwarded, in this order, and the two handles are set back
  after that.  When \<open>fn\<close> panics, the two handles are set back and nothing else is done.
\<close>

theorem redirectStdout_restores_last:
  "(fn (scope_entry w) = Some (Return err, u) \<longrightarrow>
      (\<exists>s'. redirectStdout c fn w = Some (Return err, s')
         \<and> Stdout s' = Stdout w \<and> Stderr s' = Stderr w
         \<and> trace s' = trace u @
              [EvClose (write_end w) (fst (File_Close (write_end w) u)),
               EvCopy (read_end w) (captured (read_end w) u),
               EvCall c ''FlexvolumeController.Log''
                 \<lparr>Message = captured (read_end w) u, IsError = False\<rparr>
                 (rpc_reply u c ''FlexvolumeController.Log''),
               EvSetStdout (Stdout w), EvSetStderr (Stderr w)]))
   \<and> (fn (scope_entry w) = Some (Panic v, u) \<longrightarrow>
      (\<exists>s'. redirectStdout c fn w = Some (Panic v, s')
         \<and> Stdout s' = Stdout w \<and> Stderr s' = Stderr w
         \<and> trace s' = trace u @ [EvSetStdout (Stdout w), EvSetStderr (Stderr w)]))"
proof (intro conjI impI)
  assume "fn (scope_entry w) = Some (Return err, u)"
  from redirectStdout_Return [where c=c and fn=fn and w=w, OF this]
  show "\<exists>s'. redirectStdout c fn w = Some (Return err, s')
         \<and> Stdout s' = Stdout w \<and> Stderr s' = Stderr w
         \<and> trace s' = trace u @
              [EvClose (write_end w) (fst (File_Close (write_end w) u)),
               EvCopy (read_end w) (captured (read_end w) u),
               EvCall c ''FlexvolumeController.Log''
                 \<lparr>Message = captured (read_end w) u, IsError = False\<rparr>
                 (rpc_reply u c ''FlexvolumeController.Log''),
               EvSetStdout (Stdout w), EvSetStderr (Stderr w)]"
    by blast
next
  assume "fn (scope_entry w) = Some (Panic v, u)"
  from redirectStdout_Panic [where c=c and fn=fn and w=w, OF this]
  show "\<exists>s'. redirectStdout c fn w = Some (Panic v, s')
         \<and> Stdout s' = Stdout w \<and> Stderr s' = Stderr w
         \<and> trace s' = trace u @ [EvSetStdout (Stdout w), EvSetStderr (Stderr w)]"
    by (simp add: set_Stdout_def set_Stderr_def emit_def)
qed

text \<open>The theorem at a function that prints one line, once returning and once
  panicking.\<close>

theorem redirectStdout_restores_last_witness:
  "map_option (trace \<circ> snd)
     (redirectStdout 0 (printing_fn [PrintOut ''mounting volume x''] (Return None)) world0)
   = Some [EvPipe (Some (PipeRead 0)) (Some (PipeWrite 0)) None,
           EvSetStdout (Some (PipeWrite 0)), EvSetStderr (Some (PipeWrite 0)),
           EvWrite (Some (PipeWrite 0)) ''mounting volume x'',
           EvClose (Some (PipeWrite 0)) None,
           EvCopy (Some (PipeRead 0)) ''mounting volume x'',
           EvCall 0 ''FlexvolumeController.Log''
             \<lparr>Message = ''mounting volume x'', IsError = False\<rparr> None,
           EvSetStdout (Some (Stream 1)), EvSetStderr (Some (Stream 2))]
   \<and> map_option (trace \<circ> snd)
     (redirectStdout 0 (printing_fn [PrintOut ''mounting volume x''] (Panic ''boom'')) world0)
   = Some [EvPipe (Some (PipeRead 0)) (Some (PipeWrite 0)) None,
           EvSetStdout (Some (PipeWrite 0)), EvSetStderr (Some (PipeWrite 0)),
           EvWrite (Some (PipeWrite 0)) ''mounting volume x'',
           EvSetStdout (Some (Stream 1)), EvSetStderr (Some (Stream 2))]"
proof -
  let ?body = "[PrintOut ''mounting volume x'']"
  let ?w4 = "(scope_entry world0)\<lparr>pipes := (pipes (scope_entry world0))(0 := [''mounting volume x'']),
     trace := trace (scope_entry world0) @ [EvWrite (Some (PipeWrite 0)) ''mounting volume x'']\<rparr>"
  have r: "printing_fn ?body (Return None) (scope_entry world0) = Some (Return None, ?w4)"
    by (simp add: eval_defs)
  have p: "printing_fn ?body (Panic ''boom'') (scope_entry world0) = Some (Panic ''boom'', ?w4)"
    by (simp add: eval_defs)
  from redirectStdout_restores_last [where fn="printing_fn ?body (Return None)" and w=world0
      and err=None and u="?w4" and c=0] r
  obtain s' where "redirectStdout 0 (printing_fn ?body (Return None)) world0 = Some (Return None, s')"
    and "trace s' = trace ?w4 @
              [EvClose (write_end world0) (fst (File_Close (write_end world0) ?w4)),
               EvCopy (read_end world0) (captured (read_end world0) ?w4),
               EvCall 0 ''FlexvolumeController.Log''
                 \<lparr>Message = captured (read_end world0) ?w4, IsError = False\<rparr>
                 (rpc_reply ?w4 0 ''FlexvolumeController.Log''),
               EvSetStdout (Stdout world0), EvSetStderr (Stderr world0)]"
    by blast
  then have a: "map_option (trace \<circ> snd)
     (redirectStdout 0 (printing_fn ?body (Return None)) world0)
   = Some [EvPipe (Some (PipeRead 0)) (Some (PipeWrite 0)) None,
           EvSetStdout (Some (PipeWrite 0)), EvSetStderr (Some (PipeWrite 0)),
           EvWrite (Some (PipeWrite 0)) ''mounting volume x'',
           EvClose (Some (PipeWrite 0)) None,
           EvCopy (Some (PipeRead 0)) ''mounting volume x'',
           EvCall 0 ''FlexvolumeController.Log''
             \<lparr>Message = ''mounting volume x'', IsError = False\<rparr> None,
           EvSetStdout (Some (Stream 1)), EvSetStderr (Some (Stream 2))]"
    by (simp add: scope_entry_def read_end_def write_end_def captured_def world0_def prim_defs Let_def)
  from redirectStdout_restores_last [where fn="printing_fn ?body (Panic ''boom'')" and w=world0
      and v="''boom''" and u="?w4" and c=0] p
  obtain s' where "redirectStdout 0 (printing_fn ?body (Panic ''boom'')) world0 = Some (Panic ''boom'', s')"
    and "trace s' = trace ?w4 @ [EvSetStdout (Stdout world0), EvSetStderr (Stderr world0)]"
    by blast
  then have b: "map_option (trace \<circ> snd)
     (redirectStdout 0 (printing_fn ?body (Panic ''boom'')) world0)
   = Some [EvPipe (Some (PipeRead 0)) (Some (PipeWrite 0)) None,
           EvSetStdout (Some (PipeWrite 0)), EvSetStderr (Some (PipeWrite 0)),
           EvWrite (Some (PipeWrite 0)) ''mounting volume x'',
           EvSetStdout (Some (Stream 1)), EvSetStderr (Some (Stream 2))]"
    by (simp add: scope_entry_def read_end_def write_end_def captured_def world0_def prim_defs Let_def)
  from a b show ?thesis by blast
qed

text \<open>
  C1 as stated asks for the restoration before the clean-up.  For a function that prints
  one line and returns, the trace has a clean-up step before \<open>os.Stdout\<close> is set back to
  the terminal.
\<close>

theorem restore_first_counterexample:
  "map_option (cleanup_after_restore (Some (Stream 1)) \<circ> trace \<circ> snd)
     (redirectStdout 0 (printing_fn [PrintOut ''mounting volume x''] (Return None)) world0)
   = Some False"
  by (simp add: eval_defs)

subsection \<open>C2: what is captured\<close>




subsection \<open>C3: the handles after the call\<close>

text \<open>
  C3.  Whenever \<open>redirectStdout\<close> leaves, by the return of \<open>fn\<close> with or without an
  error or by a panic of \<open>fn\<close>, and whatever \<open>fn\<close> did, \<open>os.Stdout\<close> and \<open>os.Stderr\<close>
  are the handles they were before the call.
\<close>

theorem redirectStdout_restores_handles:
  assumes "redirectStdout c fn w = Some (ex, s')"
  shows "Stdout s' = Stdout w \<and> Stderr s' = Stderr w"
proof (cases "fn (scope_entry w)")
  case None
  with assms show ?thesis by (simp add: redirectStdout_None)
next
  case (Some a)
  obtain ex' u where a: "a = (ex', u)" by (cases a)
  show ?thesis
  proof (cases ex')
    case (Return err)
    with Some a redirectStdout_Return [where fn=fn and w=w and err=err and u=u and c=c] assms
    show ?thesis by auto
  next
    case (Panic v)
    with Some a redirectStdout_Panic [where fn=fn and w=w and v=v and u=u and c=c] assms
    show ?thesis by (auto simp: set_Stdout_def set_Stderr_def emit_def)
  qed
qed

text \<open>The theorem at a function that prints and fails, and at one that prints and
  panics.\<close>

theorem redirectStdout_restores_handles_witness:
  "map_option (Stdout \<circ> snd)
     (redirectStdout 0
        (printing_fn [PrintOut ''mounting volume x''] (Return (Some (Error ''mount failed''))))
        world0)
   = Some (Some (Stream 1))
   \<and> map_option (Stderr \<circ> snd)
     (redirectStdout 0
        (printing_fn [PrintOut ''mounting volume x''] (Return (Some (Error ''mount failed''))))
        world0)
   = Some (Some (Stream 2))
   \<and> map_option (Stdout \<circ> snd)
     (redirectStdout 0 (printing_fn [PrintOut ''mounting volume x''] (Panic ''boom'')) world0)
   = Some (Some (Stream 1))
   \<and> map_option (Stderr \<circ> snd)
     (redirectStdout 0 (printing_fn [PrintOut ''mounting volume x''] (Panic ''boom'')) world0)
   = Some (Some (Stream 2))"
proof -
  let ?fn = "printing_fn [PrintOut ''mounting volume x''] (Return (Some (Error ''mount failed'')))"
  let ?pn = "printing_fn [PrintOut ''mounting volume x''] (Panic ''boom'')"
  have "\<exists>s'. redirectStdout 0 ?fn world0 = Some (Return (Some (Error ''mount failed'')), s')"
    by (simp add: eval_defs)
  then obtain s' where
    r: "redirectStdout 0 ?fn world0 = Some (Return (Some (Error ''mount failed'')), s')"
    by blast
  have "\<exists>t'. redirectStdout 0 ?pn world0 = Some (Panic ''boom'', t')"
    by (simp add: eval_defs)
  then obtain t' where p: "redirectStdout 0 ?pn world0 = Some (Panic ''boom'', t')"
    by blast
  from redirectStdout_restores_handles [OF r] redirectStdout_restores_handles [OF p] r p
  show ?thesis
    by (simp add: world0_def)
qed

subsection \<open>C4: a failing function\<close>

text \<open>
  C4.  If \<open>fn\<close> returns an error \<open>e\<close>, then \<open>redirectStdout\<close> closes the write end,
  drains what the pipe holds at that moment, forwards exactly that text to the log
  forwarder, sets the handles back and returns \<open>e\<close> itself.
\<close>

theorem redirectStdout_failure_forwarded:
  assumes "fn (scope_entry w) = Some (Return (Some e), u)"
  shows "\<exists>s'. redirectStdout c fn w = Some (Return (Some e), s')
           \<and> trace s' = trace u @
               [EvClose (write_end w) (fst (File_Close (write_end w) u)),
                EvCopy (read_end w) (captured (read_end w) u),
                EvCall c ''FlexvolumeController.Log''
                  \<lparr>Message = captured (read_end w) u, IsError = False\<rparr>
                  (rpc_reply u c ''FlexvolumeController.Log''),
                EvSetStdout (Stdout w), EvSetStderr (Stderr w)]"
  using redirectStdout_Return [where c=c and fn=fn and w=w, OF assms] by blast

text \<open>The theorem at a function that prints one line and fails.\<close>

theorem redirectStdout_failure_forwarded_witness:
  "map_option (\<lambda>r. (fst r, log_records (trace (snd r))))
     (redirectStdout 0
        (printing_fn [PrintOut ''mounting volume x''] (Return (Some (Error ''mount failed''))))
        world0)
   = Some (Return (Some (Error ''mount failed'')),
           [\<lparr>Message = ''mounting volume x'', IsError = False\<rparr>])"
proof -
  let ?fn = "printing_fn [PrintOut ''mounting volume x''] (Return (Some (Error ''mount failed'')))"
  let ?u = "(scope_entry world0)\<lparr>pipes := (pipes (scope_entry world0))(0 := [''mounting volume x'']),
     trace := trace (scope_entry world0) @ [EvWrite (Some (PipeWrite 0)) ''mounting volume x'']\<rparr>"
  have r: "?fn (scope_entry world0) = Some (Return (Some (Error ''mount failed'')), ?u)"
    by (simp add: eval_defs)
  from redirectStdout_failure_forwarded [where fn="?fn" and w=world0 and c=0, OF r]
  show ?thesis
    by (auto simp: scope_entry_def read_end_def write_end_def captured_def world0_def
          prim_defs Let_def)
qed

subsection \<open>C5: the logging call is fire-and-forget\<close>

text \<open>
  C5.  For every client, message and flag, \<open>log\<close> has one effect, the call, and drops
  what the call returns: it has no result and cannot fail.  \<open>redirectStdout\<close> leaves the
  way \<open>fn\<close> leaves and with the value of \<open>fn\<close>, so its result does not depend on the
  answer to the logging call; for a function that prints, the result is the same under
  every behaviour \<open>rp\<close> of the remote side.
\<close>

theorem log_fire_and_forget:
  "log c m b s =
     emit (EvCall c ''FlexvolumeController.Log'' \<lparr>Message = m, IsError = b\<rparr>
             (rpc_reply s c ''FlexvolumeController.Log'')) s
   \<and> map_option fst (redirectStdout c fn w) = map_option fst (fn (scope_entry w))
   \<and> map_option fst (redirectStdout c (printing_fn body ex) (w\<lparr>rpc_reply := rp\<rparr>)) =
     map_option fst (redirectStdout c (printing_fn body ex) w)"
  by (simp add: redirectStdout_exit printing_fn_exit_rpc_reply log_def rpc_Call_def)

text \<open>The theorem at an agent that has hung up.\<close>

theorem log_fire_and_forget_witness:
  "map_option fst
     (redirectStdout 0 (printing_fn [PrintOut ''mounting volume x''] (Return None))
        (world0\<lparr>rpc_reply := (\<lambda>c m. Some ErrShutdown)\<rparr>))
   = Some (Return None)
   \<and> trace (log 0 ''mounting volume x'' False (world0\<lparr>rpc_reply := (\<lambda>c m. Some ErrShutdown)\<rparr>))
   = [EvCall 0 ''FlexvolumeController.Log''
        \<lparr>Message = ''mounting volume x'', IsError = False\<rparr> (Some ErrShutdown)]"
proof -
  have "map_option fst
     (redirectStdout 0 (printing_fn [PrintOut ''mounting volume x''] (Return None)) world0)
   = Some (Return None)"
    by (simp add: eval_defs)
  with log_fire_and_forget [where c=0 and body="[PrintOut ''mounting volume x'']"
      and ex="Return None" and w=world0 and rp="\<lambda>c m. Some ErrShutdown"
      and m="''mounting volume x''" and b=False
      and s="world0\<lparr>rpc_reply := (\<lambda>c m. Some ErrShutdown)\<rparr>"]
  show ?thesis by (simp add: emit_def world0_def)
qed

subsection \<open>C6: no agent at the rendezvous\<close>

text \<open>
  C6.  If the path of the executable is known and the connection attempt to the socket
  address fails with some cause (no such file, connection refused), then \<open>getRPCClient\<close>
  returns no client and an error whose text carries the address and the text of the
  cause; no connection is left open; and the address was dialled exactly once.
\<close>

theorem getRPCClient_connection_error:
  assumes "executable w = Inr ex"
    and "addr = path_Join [path_Dir ex, path_Join [name]]"
    and "sockets w (resolve_path (cwd w) addr) = Some cause"
  shows "\<exists>s'. getRPCClient name w =
            ((None, Some (Error (''error connecting to socket '' @ addr @ '': dial unix ''
                                   @ addr @ '': '' @ Error_msg cause))), s')
          \<and> conns s' = conns w
          \<and> trace s' = trace w @ [EvExecutable, EvDial ''unix'' addr]"
  using assms by (simp add: conn_defs)

text \<open>The theorem at the installed driver with no socket file in the plugin directory.\<close>

theorem getRPCClient_connection_error_witness:
  "fst (getRPCClient ''.rook.sock''
     (world0\<lparr>sockets := (\<lambda>p. Some (Error ''connect: no such file or directory''))\<rparr>))
   = (None, Some (Error (''error connecting to socket /usr/libexec/kubernetes/plugin/volume/rook.io~rook/.rook.sock: dial unix /usr/libexec/kubernetes/plugin/volume/rook.io~rook/.rook.sock: connect: no such file or directory'')))
   \<and> conns (snd (getRPCClient ''.rook.sock''
     (world0\<lparr>sockets := (\<lambda>p. Some (Error ''connect: no such file or directory''))\<rparr>))) = []
   \<and> trace (snd (getRPCClient ''.rook.sock''
     (world0\<lparr>sockets := (\<lambda>p. Some (Error ''connect: no such file or directory''))\<rparr>)))
   = [EvExecutable,
      EvDial ''unix'' ''/usr/libexec/kubernetes/plugin/volume/rook.io~rook/.rook.sock'']"
proof -
  let ?w = "world0\<lparr>sockets := (\<lambda>p. Some (Error ''connect: no such file or directory''))\<rparr>"
  let ?ex = "''/usr/libexec/kubernetes/plugin/volume/rook.io~rook/rook''"
  let ?addr = "''/usr/libexec/kubernetes/plugin/volume/rook.io~rook/.rook.sock''"
  have e: "executable ?w = Inr ?ex" by (simp add: world0_def)
  have a: "?addr = path_Join [path_Dir ?ex, path_Join [''.rook.sock'']]"
    by (simp add: path_eval)
  have s: "sockets ?w (resolve_path (cwd ?w) ?addr) = Some (Error ''connect: no such file or directory'')"
    by simp
  from getRPCClient_connection_error [OF e a s] show ?thesis
    by (auto simp: world0_def)
qed

subsection \<open>C7: the channel address\<close>

text \<open>
  C7.  The address \<open>getRPCClient\<close> dials is \<open>path.Join\<close> of \<open>path.Dir\<close> of the path of
  the executable and of the socket name.  For an executable \<open>/d1/.../dn/base\<close> made of
  plain elements this is \<open>/d1/.../dn/name\<close>.  The address does not depend on the
  working directory, and for an absolute executable path it is absolute, so that the
  result of \<open>getRPCClient\<close> does not depend on the working directory either.  When
  \<open>os.Executable\<close> fails, \<open>getRPCClient\<close> returns no client and an error that carries
  the text of that failure, without dialling.
\<close>

theorem getRPCClient_channel_address:
  "(executable w = Inr ex \<longrightarrow>
      dialled (trace (snd (getRPCClient name w))) =
        dialled (trace w) @ [path_Join [path_Dir ex, path_Join [name]]]
      \<and> (rooted_path ex \<longrightarrow>
           rooted_path (path_Join [path_Dir ex, path_Join [name]])
           \<and> fst (getRPCClient name (w\<lparr>cwd := d\<rparr>)) = fst (getRPCClient name w)))
   \<and> (list_all plain_elem dir \<and> plain_elem base \<and> plain_elem name \<longrightarrow>
        path_Join [path_Dir (abs_path (dir @ [base])), path_Join [name]] = abs_path (dir @ [name]))
   \<and> dialled (trace (snd (getRPCClient name (w\<lparr>cwd := d\<rparr>)))) =
       dialled (trace (snd (getRPCClient name w)))
   \<and> (executable w = Inl e \<longrightarrow>
        getRPCClient name w =
          ((None, Some (Error (''error getting path of the Rook flexvolume driver: ''
                                 @ Error_msg e))),
           emit EvExecutable w))"
  by (simp add: getRPCClient_dialled getRPCClient_no_executable getRPCClient_cwd_dialled
        getRPCClient_cwd_result unixSocketFile_rooted unixSocketFile_abs_path)

text \<open>The theorem at the installed driver, from another working directory, and at a
  process that cannot read the link to its executable.\<close>

theorem getRPCClient_channel_address_witness:
  "dialled (trace (snd (getRPCClient ''.rook.sock'' world0)))
     = [''/usr/libexec/kubernetes/plugin/volume/rook.io~rook/.rook.sock'']
   \<and> fst (getRPCClient ''.rook.sock'' (world0\<lparr>cwd := ''/tmp''\<rparr>))
     = fst (getRPCClient ''.rook.sock'' world0)
   \<and> fst (getRPCClient ''.rook.sock''
           (world0\<lparr>executable := Inl (Error ''readlink /proc/self/exe: permission denied'')\<rparr>))
     = (None, Some (Error ''error getting path of the Rook flexvolume driver: readlink /proc/self/exe: permission denied''))"
proof -
  let ?ex = "''/usr/libexec/kubernetes/plugin/volume/rook.io~rook/rook''"
  let ?w' = "world0\<lparr>executable := Inl (Error ''readlink /proc/self/exe: permission denied'')\<rparr>"
  have e: "executable world0 = Inr ?ex" by (simp add: world0_def)
  have r: "rooted_path ?ex" by (simp add: rooted_path_def)
  have p: "list_all plain_elem [''usr'', ''libexec'', ''kubernetes'', ''plugin'', ''volume'', ''rook.io~rook'']
      \<and> plain_elem ''rook'' \<and> plain_elem ''.rook.sock''"
    by (simp add: plain_elem_def)
  have x: "abs_path ([''usr'', ''libexec'', ''kubernetes'', ''plugin'', ''volume'', ''rook.io~rook''] @ [''rook'']) = ?ex"
    by (simp add: abs_path_def)
  have e': "executable ?w' = Inl (Error ''readlink /proc/self/exe: permission denied'')" by simp
  from getRPCClient_channel_address [where w=world0 and ex="?ex" and name="''.rook.sock''"
      and d="''/tmp''" and base="''rook''"
      and dir="[''usr'', ''libexec'', ''kubernetes'', ''plugin'', ''volume'', ''rook.io~rook'']"]
    e r p x
  have a: "dialled (trace (snd (getRPCClient ''.rook.sock'' world0)))
     = [''/usr/libexec/kubernetes/plugin/volume/rook.io~rook/.rook.sock'']
   \<and> fst (getRPCClient ''.rook.sock'' (world0\<lparr>cwd := ''/tmp''\<rparr>))
     = fst (getRPCClient ''.rook.sock'' world0)"
    by (simp add: abs_path_def world0_def)
  from getRPCClient_channel_address [where w="?w'" and name="''.rook.sock''"
      and e="Error ''readlink /proc/self/exe: permission denied''"] e'
  have b: "fst (getRPCClient ''.rook.sock'' ?w')
     = (None, Some (Error ''error getting path of the Rook flexvolume driver: readlink /proc/self/exe: permission denied''))"
    by simp
  from a b show ?thesis by blast
qed

subsection \<open>C8: how many Log Records\<close>

text \<open>
  C8, as amended.  Every invocation of \<open>redirectStdout\<close> in which \<open>fn\<close> returns, with
  or without an error, forwards exactly one Log Record, which carries the captured
  output, also when that output is empty.  An invocation in which \<open>fn\<close> panics forwards
  none.
\<close>

theorem redirectStdout_one_log_record:
  "(fn (scope_entry w) = Some (Return err, u) \<longrightarrow>
      (\<exists>s'. redirectStdout c fn w = Some (Return err, s')
         \<and> log_records (trace s') =
             log_records (trace u) @ [\<lparr>Message = captured (read_end w) u, IsError = False\<rparr>]))
   \<and> (fn (scope_entry w) = Some (Panic v, u) \<longrightarrow>
      (\<exists>s'. redirectStdout c fn w = Some (Panic v, s')
         \<and> log_records (trace s') = log_records (trace u)))"
proof (intro conjI impI)
  assume "fn (scope_entry w) = Some (Return err, u)"
  from redirectStdout_Return [where c=c and fn=fn and w=w, OF this]
  obtain s' where "redirectStdout c fn w = Some (Return err, s')"
    and "trace s' = trace u @
           [EvClose (write_end w) (fst (File_Close (write_end w) u)),
            EvCopy (read_end w) (captured (read_end w) u),
            EvCall c ''FlexvolumeController.Log''
              \<lparr>Message = captured (read_end w) u, IsError = False\<rparr>
              (rpc_reply u c ''FlexvolumeController.Log''),
            EvSetStdout (Stdout w), EvSetStderr (Stderr w)]"
    by blast
  then show "\<exists>s'. redirectStdout c fn w = Some (Return err, s')
         \<and> log_records (trace s') =
             log_records (trace u) @ [\<lparr>Message = captured (read_end w) u, IsError = False\<rparr>]"
    by (simp add: log_records_append)
next
  assume "fn (scope_entry w) = Some (Panic v, u)"
  from redirectStdout_Panic [where c=c and fn=fn and w=w, OF this]
  show "\<exists>s'. redirectStdout c fn w = Some (Panic v, s')
         \<and> log_records (trace s') = log_records (trace u)"
    by (simp add: set_Stdout_def set_Stderr_def emit_def log_records_append)
qed

text \<open>The theorem at a function that prints nothing, once returning and once
  panicking.\<close>

theorem redirectStdout_one_log_record_witness:
  "map_option (log_records \<circ> trace \<circ> snd)
     (redirectStdout 0 (printing_fn [] (Return None)) world0)
   = Some [\<lparr>Message = [], IsError = False\<rparr>]
   \<and> map_option (log_records \<circ> trace \<circ> snd)
     (redirectStdout 0 (printing_fn [] (Panic ''boom'')) world0)
   = Some []"
proof -
  have r: "printing_fn [] (Return None) (scope_entry world0) = Some (Return None, scope_entry world0)"
    by (simp add: printing_fn_def)
  have p: "printing_fn [] (Panic ''boom'') (scope_entry world0) = Some (Panic ''boom'', scope_entry world0)"
    by (simp add: printing_fn_def)
  from redirectStdout_one_log_record [where fn="printing_fn [] (Return None)" and w=world0
      and err=None and u="scope_entry world0" and c=0] r
  have a: "map_option (log_records \<circ> trace \<circ> snd)
     (redirectStdout 0 (printing_fn [] (Return None)) world0)
   = Some [\<lparr>Message = [], IsError = False\<rparr>]"
    by (auto simp: scope_entry_def read_end_def captured_def world0_def prim_defs Let_def)
  from redirectStdout_one_log_record [where fn="printing_fn [] (Panic ''boom'')" and w=world0
      and v="''boom''" and u="scope_entry world0" and c=0] p
  have b: "map_option (log_records \<circ> trace \<circ> snd)
     (redirectStdout 0 (printing_fn [] (Panic ''boom'')) world0)
   = Some []"
    by (auto simp: scope_entry_def read_end_def captured_def world0_def prim_defs Let_def)
  from a b show ?thesis by blast
qed

text \<open>C8 as stated holds of every invocation.  A function that prints and then panics
  leaves \<open>redirectStdout\<close> without any Log Record.\<close>

theorem one_log_record_counterexample:
  "map_option (log_records \<circ> trace \<circ> snd)
     (redirectStdout 0 (printing_fn [PrintOut ''mounting volume x''] (Panic ''boom'')) world0)
   = Some []"
  by (simp add: eval_defs)

subsection \<open>C9: the severity flag\<close>

text \<open>
  C9.  Whenever \<open>fn\<close> returns, with an error or without, what \<open>redirectStdout\<close> does
  after it is: close the write end, drain the read end, forward one Log Record that
  carries the captured output with \<open>IsError = False\<close>, and set the handles back.  The
  flag of the record is \<open>False\<close> whatever \<open>fn\<close> returned.
\<close>

theorem redirectStdout_isError_false:
  assumes "fn (scope_entry w) = Some (Return err, u)"
  shows "\<exists>s'. redirectStdout c fn w = Some (Return err, s')
           \<and> trace s' = trace u @
               [EvClose (write_end w) (fst (File_Close (write_end w) u)),
                EvCopy (read_end w) (captured (read_end w) u),
                EvCall c ''FlexvolumeController.Log''
                  \<lparr>Message = captured (read_end w) u, IsError = False\<rparr>
                  (rpc_reply u c ''FlexvolumeController.Log''),
                EvSetStdout (Stdout w), EvSetStderr (Stderr w)]
           \<and> log_records (drop (length (trace u)) (trace s')) =
               [\<lparr>Message = captured (read_end w) u, IsError = False\<rparr>]
           \<and> map IsError (log_records (drop (length (trace u)) (trace s'))) = [False]"
proof -
  from redirectStdout_Return [where c=c and fn=fn and w=w, OF assms]
  obtain s' where "redirectStdout c fn w = Some (Return err, s')"
    and "trace s' = trace u @
           [EvClose (write_end w) (fst (File_Close (write_end w) u)),
            EvCopy (read_end w) (captured (read_end w) u),
            EvCall c ''FlexvolumeController.Log''
              \<lparr>Message = captured (read_end w) u, IsError = False\<rparr>
              (rpc_reply u c ''FlexvolumeController.Log''),
            EvSetStdout (Stdout w), EvSetStderr (Stderr w)]"
    by blast
  then show ?thesis by simp
qed

text \<open>The theorem at a function that writes to standard error and fails.\<close>

theorem redirectStdout_isError_false_witness:
  "map_option (log_records \<circ> trace \<circ> snd)
     (redirectStdout 0
        (printing_fn [PrintErr ''mount: permission denied''] (Return (Some (Error ''mount failed''))))
        world0)
   = Some [\<lparr>Message = ''mount: permission denied'', IsError = False\<rparr>]"
proof -
  let ?fn = "printing_fn [PrintErr ''mount: permission denied''] (Return (Some (Error ''mount failed'')))"
  let ?u = "(scope_entry world0)\<lparr>pipes := (pipes (scope_entry world0))(0 := [''mount: permission denied'']),
     trace := trace (scope_entry world0) @ [EvWrite (Some (PipeWrite 0)) ''mount: permission denied'']\<rparr>"
  have r: "?fn (scope_entry world0) = Some (Return (Some (Error ''mount failed'')), ?u)"
    by (simp add: eval_defs)
  from redirectStdout_isError_false [where fn="?fn" and w=world0 and c=0, OF r]
  show ?thesis
    by (auto simp: eval_defs)
qed

subsection \<open>C10: a pipe that could not be created\<close>

text \<open>
  C10.  When \<open>os.Pipe\<close> fails, with whatever error, \<open>redirectStdout\<close> still sets
  \<open>os.Stdout\<close> and \<open>os.Stderr\<close> to the nil write end, runs \<open>fn\<close>, and leaves the way
  \<open>fn\<close> leaves with the value of \<open>fn\<close>: the error of \<open>os.Pipe\<close> is nowhere in its
  result.  When \<open>fn\<close> returns, the nil write end is closed and the nil read end is
  drained, both failing unnoticed, and an empty text is forwarded.
\<close>

theorem redirectStdout_pipe_error_discarded:
  assumes "pipe_fault w = Some e"
  shows "Stdout (scope_entry w) = None \<and> Stderr (scope_entry w) = None
     \<and> trace (scope_entry w) =
         trace w @ [EvPipe None None (Some e), EvSetStdout None, EvSetStderr None]
     \<and> map_option fst (redirectStdout c fn w) = map_option fst (fn (scope_entry w))
     \<and> (fn (scope_entry w) = Some (Return err, u) \<longrightarrow>
          (\<exists>s'. redirectStdout c fn w = Some (Return err, s')
             \<and> trace s' = trace u @
                 [EvClose None (Some ErrInvalid), EvCopy None [],
                  EvCall c ''FlexvolumeController.Log'' \<lparr>Message = [], IsError = False\<rparr>
                    (rpc_reply u c ''FlexvolumeController.Log''),
                  EvSetStdout (Stdout w), EvSetStderr (Stderr w)]))"
proof (intro conjI impI)
  show "Stdout (scope_entry w) = None" "Stderr (scope_entry w) = None"
    "trace (scope_entry w) =
         trace w @ [EvPipe None None (Some e), EvSetStdout None, EvSetStderr None]"
    using assms by (simp_all add: scope_entry_fault)
  show "map_option fst (redirectStdout c fn w) = map_option fst (fn (scope_entry w))"
    by (rule redirectStdout_exit)
next
  assume "fn (scope_entry w) = Some (Return err, u)"
  from redirectStdout_Return [where c=c and fn=fn and w=w, OF this]
  show "\<exists>s'. redirectStdout c fn w = Some (Return err, s')
             \<and> trace s' = trace u @
                 [EvClose None (Some ErrInvalid), EvCopy None [],
                  EvCall c ''FlexvolumeController.Log'' \<lparr>Message = [], IsError = False\<rparr>
                    (rpc_reply u c ''FlexvolumeController.Log''),
                  EvSetStdout (Stdout w), EvSetStderr (Stderr w)]"
    using assms by (auto simp: scope_entry_fault captured_def File_Close_def)
qed

text \<open>The theorem at a process that has no file descriptor left.\<close>

theorem redirectStdout_pipe_error_discarded_witness:
  "map_option (\<lambda>r. (fst r, trace (snd r)))
     (redirectStdout 0 (printing_fn [PrintOut ''mounting volume x''] (Return None))
        (world0\<lparr>pipe_fault := Some (Error ''too many open files'')\<rparr>))
   = Some (Return None,
       [EvPipe None None (Some (Error ''too many open files'')),
        EvSetStdout None, EvSetStderr None, EvWrite None [],
        EvClose None (Some ErrInvalid), EvCopy None [],
        EvCall 0 ''FlexvolumeController.Log'' \<lparr>Message = [], IsError = False\<rparr> None,
        EvSetStdout (Some (Stream 1)), EvSetStderr (Some (Stream 2))])"
proof -
  let ?w = "world0\<lparr>pipe_fault := Some (Error ''too many open files'')\<rparr>"
  let ?fn = "printing_fn [PrintOut ''mounting volume x''] (Return None)"
  let ?u = "(scope_entry ?w)\<lparr>trace := trace (scope_entry ?w) @ [EvWrite None []]\<rparr>"
  have f: "pipe_fault ?w = Some (Error ''too many open files'')" by simp
  have r: "?fn (scope_entry ?w) = Some (Return None, ?u)"
    by (simp add: eval_defs)
  from redirectStdout_pipe_error_discarded [where fn="?fn" and c=0 and err=None and u="?u", OF f] r
  show ?thesis
    by (auto simp: scope_entry_def world0_def prim_defs Let_def)
qed

subsection \<open>Further properties of the capture scope\<close>

text \<open>
  Once \<open>fn\<close> has left, by a return or by a panic, \<open>redirectStdout\<close> leaves too, in
  the same way: closing, draining and logging never wait.  In particular the drain
  reaches the end of the pipe, because the write end was closed just before it.
\<close>

theorem redirectStdout_leaves:
  assumes "fn (scope_entry w) = Some (ex, u)"
  shows "\<exists>s'. redirectStdout c fn w = Some (ex, s')"
proof -
  have "map_option fst (redirectStdout c fn w) = Some ex"
    using assms by (simp add: redirectStdout_exit)
  then show ?thesis by auto
qed

text \<open>The theorem at a function that prints one line.\<close>

theorem redirectStdout_leaves_witness:
  "map_option fst
     (redirectStdout 0 (printing_fn [PrintOut ''mounting volume x''] (Return None)) world0)
   = Some (Return None)"
proof -
  let ?fn = "printing_fn [PrintOut ''mounting volume x''] (Return None)"
  have "\<exists>u. ?fn (scope_entry world0) = Some (Return None, u)"
    by (simp add: eval_defs)
  then obtain u where "?fn (scope_entry world0) = Some (Return None, u)" by blast
  from redirectStdout_leaves [where fn="?fn" and w=world0 and c=0, OF this]
  show ?thesis by auto
qed

text \<open>
  A function that prints one byte, fifteen pages and one byte more, 61442 bytes in all,
  fills the 16 buffers of the pipe before its last print, which then waits:
  \<open>redirectStdout\<close> never returns.
\<close>

lemma redirectStdout_full_pipe_example:
  "redirectStdout 0
     (printing_fn [PrintOut ''x'', PrintOut (replicate 61440 CHR ''x''), PrintOut ''x'']
        (Return None))
     world0 = None"
  by (simp add: eval_defs chunks.simps)

end
